theory Spec2Isabelle
  imports Main
begin

section \<open>Values of the Violet runtime\<close>

text \<open>
  \<^verbatim>\<open>runner.py\<close> is the execution engine of the Violet interpreter. Identifiers are
  \<^verbatim>\<open>vast.Identifier\<close> nodes; they are compared and hashed by name only, so an
  identifier is represented by its name.
\<close>

type_synonym ident = string

text \<open>The classes of \<^verbatim>\<open>objects\<close> that \<^verbatim>\<open>_STD_TYPES\<close> and \<^verbatim>\<open>_PY_TYPES\<close> mention.\<close>

datatype cls = CVoid | CList | CString | CInteger | CBoolean

text \<open>
  Host (Python) values that are not instances of \<^verbatim>\<open>objects.Object\<close>: literals, class
  objects such as \<^verbatim>\<open>objects.Integer\<close> itself, and functions of a standard-library
  module.
\<close>

datatype host =
    HInt int
  | HStr string
  | HNone
  | HBool bool
  | HList "host list"
  | HClass cls
  | HFunc string

text \<open>
  A runtime value: an instance of an \<^verbatim>\<open>objects.Object\<close> subclass with its payload, a
  function object (by its address in the heap of function objects), a bare host value, or
  a \<^verbatim>\<open>ThinPythonObjectWrapper\<close> around a host value.
\<close>

datatype val =
    Obj cls host
  | Fn nat
  | Native host
  | Thin host

text \<open>The Python class of a value: what \<^verbatim>\<open>type(value)\<close> returns.\<close>

datatype pytype =
    PyInt | PyStr | PyNoneType | PyBool | PyList | PyType | PyHostFunction
  | PyThinWrapper | PyObject cls | PyFunction

fun host_type :: "host \<Rightarrow> pytype" where
  "host_type (HInt _) = PyInt"
| "host_type (HStr _) = PyStr"
| "host_type HNone = PyNoneType"
| "host_type (HBool _) = PyBool"
| "host_type (HList _) = PyList"
| "host_type (HClass _) = PyType"
| "host_type (HFunc _) = PyHostFunction"

fun type_of :: "val \<Rightarrow> pytype" where
  "type_of (Obj c _) = PyObject c"
| "type_of (Fn _) = PyFunction"
| "type_of (Native h) = host_type h"
| "type_of (Thin _) = PyThinWrapper"

fun cls_name :: "cls \<Rightarrow> string" where
  "cls_name CVoid = ''Void''"
| "cls_name CList = ''List''"
| "cls_name CString = ''String''"
| "cls_name CInteger = ''Integer''"
| "cls_name CBoolean = ''Boolean''"

fun type_name :: "pytype \<Rightarrow> string" where
  "type_name PyInt = ''int''"
| "type_name PyStr = ''str''"
| "type_name PyNoneType = ''NoneType''"
| "type_name PyBool = ''bool''"
| "type_name PyList = ''list''"
| "type_name PyType = ''type''"
| "type_name PyHostFunction = ''function''"
| "type_name PyThinWrapper = ''ThinPythonObjectWrapper''"
| "type_name (PyObject c) = cls_name c"
| "type_name PyFunction = ''Function''"

text \<open>\<^verbatim>\<open>value.__class__.__name__\<close>: the type tag of a value.\<close>

definition class_name :: "val \<Rightarrow> string" where
  "class_name v = type_name (type_of v)"

text \<open>\<^verbatim>\<open>isinstance(value, objects.Object)\<close> and the wrapper test of \<^verbatim>\<open>set_var\<close>.\<close>

fun is_Object :: "val \<Rightarrow> bool" where
  "is_Object (Obj _ _) = True"
| "is_Object (Fn _) = True"
| "is_Object _ = False"

fun is_Thin :: "val \<Rightarrow> bool" where
  "is_Thin (Thin _) = True"
| "is_Thin _ = False"

text \<open>\<^verbatim>\<open>objects.ThinPythonObjectWrapper(value)\<close> for a value that is neither.\<close>

fun thin_wrap :: "val \<Rightarrow> val" where
  "thin_wrap (Native h) = Thin h"
| "thin_wrap v = v"

text \<open>The module-level tables \<^verbatim>\<open>_STD_TYPES\<close> and \<^verbatim>\<open>_PY_TYPES\<close>.\<close>

definition STD_TYPES :: "string \<rightharpoonup> cls" where
  "STD_TYPES =
     [''nil'' \<mapsto> CVoid, ''List'' \<mapsto> CList, ''String'' \<mapsto> CString,
      ''Void'' \<mapsto> CVoid, ''Integer'' \<mapsto> CInteger, ''Boolean'' \<mapsto> CBoolean]"

definition PY_TYPES :: "pytype \<rightharpoonup> cls" where
  "PY_TYPES = [PyInt \<mapsto> CInteger, PyStr \<mapsto> CString, PyNoneType \<mapsto> CVoid, PyList \<mapsto> CList]"

section \<open>Syntax trees\<close>

text \<open>
  The node classes of \<^verbatim>\<open>violet.vast\<close> that the runner dispatches on. Every statement
  carries its source line first. \<^verbatim>\<open>Other\<close> stands for a node of any other class, with
  the class name.
\<close>

datatype typeid = TypeId string

datatype expr =
    Primitive val
  | Name ident
  | Call ident "expr list"

datatype from_module =
    ModName ident
  | ModAttribute ident "string list"

datatype stmt =
    Import nat from_module "ident list"
  | Assignment nat ident "typeid option" expr bool bool
  | Reassignment nat ident expr
  | Function nat ident "ident list" "stmt list"
  | Return nat "expr option"
  | FunctionCall nat ident "expr list"
  | Control nat expr "stmt list"
  | Other nat string

fun lineno_of :: "stmt \<Rightarrow> nat" where
  "lineno_of (Import l _ _) = l"
| "lineno_of (Assignment l _ _ _ _ _) = l"
| "lineno_of (Reassignment l _ _) = l"
| "lineno_of (Function l _ _ _) = l"
| "lineno_of (Return l _) = l"
| "lineno_of (FunctionCall l _ _) = l"
| "lineno_of (Control l _ _) = l"
| "lineno_of (Other l _) = l"

fun stmt_class :: "stmt \<Rightarrow> string" where
  "stmt_class (Import _ _ _) = ''Import''"
| "stmt_class (Assignment _ _ _ _ _ _) = ''Assignment''"
| "stmt_class (Reassignment _ _ _) = ''Reassignment''"
| "stmt_class (Function _ _ _ _) = ''Function''"
| "stmt_class (Return _ _) = ''Return''"
| "stmt_class (FunctionCall _ _ _) = ''FunctionCall''"
| "stmt_class (Control _ _ _) = ''Control''"
| "stmt_class (Other _ c) = c"

section \<open>Exceptions\<close>

text \<open>
  Every exception the runner raises or lets through. \<^verbatim>\<open>StatementError(stmt, msg)\<close>
  carries the statement (and with it the line); its message is one of the runner's format
  strings or \<^verbatim>\<open>str(e)\<close> of a wrapped exception. \<^verbatim>\<open>TypeMismatch\<close> is what a failed type
  check raises. \<^verbatim>\<open>SystemExit\<close> is raised by \<^verbatim>\<open>sys.exit\<close> and is not an \<^verbatim>\<open>Exception\<close>.
  \<^verbatim>\<open>OutOfFuel\<close> is no Python exception: it marks an evaluation that was cut off and no
  handler catches it.
\<close>

datatype exn =
    VarNotFound ident
  | CannotReassignConst ident
  | KeyError string
  | NameError string
  | AttributeError string
  | TypeError string
  | FileNotFoundError string
  | TypeMismatch typeid val
  | SystemExit nat
  | StatementError stmt message
  | OutOfFuel
and message =
    Unexpected string
  | NotDefined ident
  | ModuleMissing string
  | ImportFailed ident string
  | Str exn

fun is_Exception :: "exn \<Rightarrow> bool" where
  "is_Exception (SystemExit _) = False"
| "is_Exception OutOfFuel = False"
| "is_Exception _ = True"

fun is_StatementError :: "exn \<Rightarrow> bool" where
  "is_StatementError (StatementError _ _) = True"
| "is_StatementError _ = False"

text \<open>
  Modelled from the spec: \<^verbatim>\<open>TypeId.type_check\<close> and \<^verbatim>\<open>Object.get_type\<close> live in
  \<^verbatim>\<open>vast.py\<close> and \<^verbatim>\<open>objects.py\<close>. The spec gives them as "type-check value against
  declared type (fails with a descriptive mismatch error)" and "get the type tag of a
  value"; assignment and reassignment "compare the declared/previous type tag against the
  new value's type tag".
\<close>

fun type_check :: "typeid \<Rightarrow> val \<Rightarrow> exn + unit" where
  "type_check (TypeId n) v =
     (if class_name v = n then Inr () else Inl (TypeMismatch (TypeId n) v))"

definition get_type :: "val \<Rightarrow> typeid" where
  "get_type v = TypeId (class_name v)"

section \<open>Scope\<close>

text \<open>
  \<^verbatim>\<open>class Scope\<close>: the two dictionaries and the parent. The parent is an object
  reference; every scope is created by \<^verbatim>\<open>new_scope\<close> with the then current scope as
  parent, so the active scope and its ancestors form a chain that ends in the global scope.
\<close>

datatype scope =
  Scope (vars: "ident \<rightharpoonup> val") (const_vars: "ident \<rightharpoonup> val") (parent: "scope option")

definition new_Scope :: scope where
  "new_Scope = Scope Map.empty Map.empty None"

fun is_var_assigned :: "scope \<Rightarrow> ident \<Rightarrow> bool \<Rightarrow> bool" where
  "is_var_assigned (Scope vs cs par) x recurse =
     (vs x \<noteq> None \<or> cs x \<noteq> None \<or> STD_TYPES x \<noteq> None \<or>
      (recurse \<and> (case par of None \<Rightarrow> False | Some p \<Rightarrow> is_var_assigned p x True)))"

text \<open>\<^verbatim>\<open>dict.get(key)\<close>: the value, or Python's \<^verbatim>\<open>None\<close> for a missing key.\<close>

definition dict_get :: "(ident \<rightharpoonup> val) \<Rightarrow> ident \<Rightarrow> val" where
  "dict_get d k = (case d k of None \<Rightarrow> Native HNone | Some v \<Rightarrow> v)"

text \<open>The body of the \<^verbatim>\<open>try\<close> in \<^verbatim>\<open>Scope.get_var\<close>.\<close>

definition get_var_try :: "(ident \<rightharpoonup> val) \<Rightarrow> (ident \<rightharpoonup> val) \<Rightarrow> ident \<Rightarrow> exn + val" where
  "get_var_try vs cs x =
     (case STD_TYPES x of
        Some c \<Rightarrow> Inr (Native (HClass c))
      | None \<Rightarrow>
          (let var = dict_get vs x;
               var = (if var = Native HNone then dict_get cs x else var)
           in if var = Native HNone then Inl (VarNotFound x) else Inr var))"

fun get_var :: "scope \<Rightarrow> ident \<Rightarrow> exn + val" where
  "get_var (Scope vs cs par) x =
     (case get_var_try vs cs x of
        Inr v \<Rightarrow> Inr v
      | Inl e \<Rightarrow>
          (case e of
             VarNotFound y \<Rightarrow>
               (case par of None \<Rightarrow> Inl e | Some p \<Rightarrow> get_var p x)
           | _ \<Rightarrow> Inl e))"

text \<open>
  \<^verbatim>\<open>Scope.reassign_var\<close>. The scope is returned as it stands when the method returns or
  raises. \<^verbatim>\<open>self.vars[ident]\<close> raises \<^verbatim>\<open>KeyError\<close> for a missing key.
\<close>

fun reassign_var :: "scope \<Rightarrow> ident \<Rightarrow> val \<Rightarrow> scope \<times> (exn + unit)" where
  "reassign_var (Scope vs cs par) x v =
     (if cs x \<noteq> None then (Scope vs cs par, Inl (CannotReassignConst x))
      else case vs x of
          None \<Rightarrow> (Scope vs cs par, Inl (KeyError x))
        | Some old \<Rightarrow>
            (case type_check (TypeId (class_name old)) v of
               Inl e \<Rightarrow> (Scope vs cs par, Inl e)
             | Inr _ \<Rightarrow> (Scope (vs(x \<mapsto> v)) cs par, Inr ())))"

text \<open>\<^verbatim>\<open>Scope.set_var\<close>. The shadowing warning goes to the error stream and is left out.\<close>

fun set_var :: "scope \<Rightarrow> ident \<Rightarrow> val \<Rightarrow> bool \<Rightarrow> scope" where
  "set_var (Scope vs cs par) x v c =
     (let v' = (if is_Object v \<or> is_Thin v then v else thin_wrap v)
      in if c then Scope vs (cs(x \<mapsto> v')) par else Scope (vs(x \<mapsto> v')) cs par)"

text \<open>
  Lookup as the specification words it: built-in type names, then the bindings, then the
  const bindings, then the parent, and \<^verbatim>\<open>NameError\<close> where there is no parent.
\<close>

fun lookup_spec :: "scope \<Rightarrow> ident \<Rightarrow> exn + val" where
  "lookup_spec (Scope vs cs par) x =
     (case STD_TYPES x of
        Some c \<Rightarrow> Inr (Native (HClass c))
      | None \<Rightarrow>
          (case vs x of
             Some v \<Rightarrow> Inr v
           | None \<Rightarrow>
               (case cs x of
                  Some v \<Rightarrow> Inr v
                | None \<Rightarrow>
                    (case par of
                       None \<Rightarrow> Inl (VarNotFound x)
                     | Some p \<Rightarrow> lookup_spec p x))))"

text \<open>No binding of the chain holds the bare host \<^verbatim>\<open>None\<close>.\<close>

fun boxed :: "scope \<Rightarrow> bool" where
  "boxed (Scope vs cs par) =
     ((\<forall>x. vs x \<noteq> Some (Native HNone)) \<and> (\<forall>x. cs x \<noteq> Some (Native HNone)) \<and>
      (case par of None \<Rightarrow> True | Some p \<Rightarrow> boxed p))"

text \<open>Declare and reassign operations on one environment, run in sequence.\<close>

datatype op = Declare ident val bool | Reassign ident val

fun apply_op :: "scope \<Rightarrow> op \<Rightarrow> scope" where
  "apply_op s (Declare x v c) = set_var s x v c"
| "apply_op s (Reassign x v) = fst (reassign_var s x v)"

definition apply_ops :: "scope \<Rightarrow> op list \<Rightarrow> scope" where
  "apply_ops s ops = foldl apply_op s ops"

fun declares :: "bool \<Rightarrow> op \<Rightarrow> ident set" where
  "declares c (Declare x v c') = (if c = c' then {x} else {})"
| "declares c (Reassign x v) = {}"

definition declared :: "bool \<Rightarrow> op list \<Rightarrow> ident set" where
  "declared c ops = (\<Union>a \<in> set ops. declares c a)"

section \<open>Function objects and the runner\<close>

text \<open>
  The function-body dispatcher is handed a function object \<^verbatim>\<open>func\<close> and reads and writes
  three of its attributes: \<^verbatim>\<open>_return_flag\<close>, \<^verbatim>\<open>_return\<close> and \<^verbatim>\<open>return_type\<close>.
  Function objects are shared mutable objects, so they live in a heap indexed by address.
\<close>

record func =
  params :: "ident list"
  body :: "stmt list"
  return_flag :: bool
  return_val :: "val option"
  return_type :: "typeid option"

text \<open>The source text of a program after the lexer and parser have read it.\<close>

datatype source = ParseErrors | Parsed "stmt list"

text \<open>
  \<^verbatim>\<open>class Runner\<close>. \<^verbatim>\<open>self.scopes[self.active_scope]\<close> is \<open>active\<close>, the current scope
  with its ancestors; \<^verbatim>\<open>self.global_scope\<close> is the last scope of that chain. \<open>nfuncs\<close>
  is the next free address of the heap of function objects.
\<close>

record runner =
  active :: scope
  funcs :: "nat \<Rightarrow> func"
  nfuncs :: nat
  lineno :: nat
  debug :: bool
  code :: source

type_synonym 'a res = "runner \<times> (exn + 'a)"

definition new_func :: "ident list \<Rightarrow> stmt list \<Rightarrow> func" where
  "new_func ps bd =
     \<lparr>params = ps, body = bd, return_flag = False, return_val = None, return_type = None\<rparr>"

text \<open>\<^verbatim>\<open>Runner.__init__\<close>.\<close>

definition Runner :: "source \<Rightarrow> runner" where
  "Runner c =
     \<lparr>active = new_Scope, funcs = (\<lambda>_. new_func [] []), nfuncs = 0, lineno = 0,
      debug = False, code = c\<rparr>"


text \<open>A method call on \<^verbatim>\<open>self.global_scope\<close> that mutates it, seen from the active chain.\<close>

fun on_global :: "(scope \<Rightarrow> scope) \<Rightarrow> scope \<Rightarrow> scope" where
  "on_global g (Scope vs cs None) = g (Scope vs cs None)"
| "on_global g (Scope vs cs (Some p)) = Scope vs cs (Some (on_global g p))"

text \<open>
  \<^verbatim>\<open>Runner.new_scope\<close>, a context manager: the new scope's parent is the current scope,
  and the previously active scope is active again when the block is left, also by an
  exception.
\<close>

definition push_scope :: "runner \<Rightarrow> runner" where
  "push_scope st = st\<lparr>active := Scope Map.empty Map.empty (Some (active st))\<rparr>"

definition pop_scope :: "runner \<Rightarrow> runner" where
  "pop_scope st = (case parent (active st) of None \<Rightarrow> st | Some p \<Rightarrow> st\<lparr>active := p\<rparr>)"

definition with_new_scope :: "(runner \<Rightarrow> 'a res) \<Rightarrow> runner \<Rightarrow> 'a res" where
  "with_new_scope blk st = (case blk (push_scope st) of (st', r) \<Rightarrow> (pop_scope st', r))"

text \<open>
  \<^verbatim>\<open>Runner.wrap_py_type\<close>, a static method:
  \<^verbatim>\<open>return _PY_TYPES[type(value)](value, runner=self)\<close>. Python evaluates the callee
  \<^verbatim>\<open>_PY_TYPES[type(value)]\<close> first, which raises \<^verbatim>\<open>KeyError\<close> for a type that is not a
  key; then the arguments, where the name \<^verbatim>\<open>self\<close> is not defined. The call itself is
  never reached.
\<close>

definition wrap_py_type :: "val \<Rightarrow> exn + val" where
  "wrap_py_type v =
     (case PY_TYPES (type_of v) of
        None \<Rightarrow> Inl (KeyError (type_name (type_of v)))
      | Some c \<Rightarrow> Inl (NameError ''self''))"

text \<open>
  What the runner calls in the syntax tree is not part of \<^verbatim>\<open>runner.py\<close>; the runner's
  methods take it as parameters: \<open>ev\<close> is \<^verbatim>\<open>expression.eval(self)\<close>, \<open>ctl\<close> is
  \<^verbatim>\<open>statement.eval(self, func)\<close> of a control statement, \<open>calls\<close> is the call of a
  value \<^verbatim>\<open>main([argv], runner=self)\<close>, and \<open>orun\<close> is \<^verbatim>\<open>Runner.open(path).run()\<close>.
\<close>

type_synonym evaluator = "expr \<Rightarrow> runner \<Rightarrow> val res"
type_synonym controller = "stmt \<Rightarrow> nat \<Rightarrow> runner \<Rightarrow> unit res"
type_synonym caller = "val \<Rightarrow> val list \<Rightarrow> runner \<Rightarrow> val res"
type_synonym file_runner = "string \<Rightarrow> exn + runner option"

text \<open>\<^verbatim>\<open>except Exception as e: raise StatementError(statement, str(e))\<close>.\<close>

definition rewrap :: "stmt \<Rightarrow> exn \<Rightarrow> exn" where
  "rewrap s e = (if is_Exception e then StatementError s (Str e) else e)"

text \<open>
  \<^verbatim>\<open>Runner._exec_assignment(statement, reassign)\<close>. The dispatchers pass
  \<^verbatim>\<open>reassign=True\<close> exactly for a \<^verbatim>\<open>Reassignment\<close>, so the flag is read off the
  statement. The type check of a declaration stands outside both \<^verbatim>\<open>try\<close> blocks.
\<close>

fun exec_assignment :: "evaluator \<Rightarrow> stmt \<Rightarrow> runner \<Rightarrow> unit res" where
  "exec_assignment ev (Assignment l x ty e c g) st =
     (case ev e st of
        (st1, Inl err) \<Rightarrow> (st1, Inl (rewrap (Assignment l x ty e c g) err))
      | (st1, Inr v) \<Rightarrow>
          (case (case ty of None \<Rightarrow> Inr () | Some t \<Rightarrow> type_check t v) of
             Inl err \<Rightarrow> (st1, Inl err)
           | Inr _ \<Rightarrow>
               (if g then (st1\<lparr>active := on_global (\<lambda>s. set_var s x v c) (active st1)\<rparr>, Inr ())
                else (st1\<lparr>active := set_var (active st1) x v c\<rparr>, Inr ()))))"
| "exec_assignment ev (Reassignment l x e) st =
     (case ev e st of
        (st1, Inl err) \<Rightarrow> (st1, Inl (rewrap (Reassignment l x e) err))
      | (st1, Inr v) \<Rightarrow>
          (if \<not> is_var_assigned (active st1) x True
           then (st1, Inl (StatementError (Reassignment l x e) (NotDefined x)))
           else (case reassign_var (active st1) x v of
                   (sc, Inl err) \<Rightarrow> (st1\<lparr>active := sc\<rparr>, Inl (rewrap (Reassignment l x e) err))
                 | (sc, Inr _) \<Rightarrow> (st1\<lparr>active := sc\<rparr>, Inr ()))))"
| "exec_assignment ev s st = (st, Inl (AttributeError ''expression''))"

text \<open>
  \<^verbatim>\<open>Runner._exec_return(statement, func)\<close>. With no expression the method evaluates
  \<^verbatim>\<open>Void()\<close>, a name that \<^verbatim>\<open>runner.py\<close> neither defines nor imports.
\<close>

definition upd_func :: "nat \<Rightarrow> (func \<Rightarrow> func) \<Rightarrow> runner \<Rightarrow> runner" where
  "upd_func f g st = st\<lparr>funcs := (funcs st)(f := g (funcs st f))\<rparr>"

definition check_and_store :: "nat \<Rightarrow> val \<Rightarrow> runner \<Rightarrow> unit res" where
  "check_and_store f ret st =
     (case return_type (funcs st f) of
        None \<Rightarrow> (st, Inl (AttributeError ''type_check''))
      | Some t \<Rightarrow>
          (case type_check t ret of
             Inl err \<Rightarrow> (st, Inl err)
           | Inr _ \<Rightarrow> (upd_func f (\<lambda>fo. fo\<lparr>return_val := Some ret\<rparr>) st, Inr ())))"

fun exec_return :: "evaluator \<Rightarrow> stmt \<Rightarrow> nat \<Rightarrow> runner \<Rightarrow> unit res" where
  "exec_return ev (Return l None) f st = (st, Inl (NameError ''Void''))"
| "exec_return ev (Return l (Some e)) f st =
     (case ev e st of
        (st1, Inl err) \<Rightarrow> (st1, Inl err)
      | (st1, Inr ret) \<Rightarrow>
          (if return_type (funcs st1 f) = None then
             (case (if \<not> is_Object ret then wrap_py_type ret else Inr ret) of
                Inl err \<Rightarrow> (st1, Inl err)
              | Inr ret' \<Rightarrow>
                  check_and_store f ret'
                    (upd_func f (\<lambda>fo. fo\<lparr>return_type := Some (get_type ret')\<rparr>) st1))
           else check_and_store f ret st1))"
| "exec_return ev s f st = (st, Inl (AttributeError ''expr''))"

text \<open>
  Modelled from the spec: evaluating a \<^verbatim>\<open>Function\<close> statement (\<^verbatim>\<open>stmt.eval(self)\<close>,
  in \<^verbatim>\<open>vast.py\<close>) yields a function value that "captures parameter list, body" and
  "holds" the inferred return type and the most recent return value, both unset at first.
\<close>

fun function_eval :: "stmt \<Rightarrow> runner \<Rightarrow> val res" where
  "function_eval (Function l n ps bd) st =
     (st\<lparr>funcs := (funcs st)(nfuncs st := new_func ps bd), nfuncs := Suc (nfuncs st)\<rparr>,
      Inr (Fn (nfuncs st)))"
| "function_eval s st = (st, Inl (AttributeError ''eval''))"

text \<open>\<^verbatim>\<open>Runner._exec_function_spawn\<close>.\<close>

fun stmt_name :: "stmt \<Rightarrow> ident" where
  "stmt_name (Function l n ps bd) = n"
| "stmt_name s = []"

definition exec_function_spawn :: "stmt \<Rightarrow> runner \<Rightarrow> unit res" where
  "exec_function_spawn s st =
     (case function_eval s st of
        (st1, Inl err) \<Rightarrow> (st1, Inl err)
      | (st1, Inr v) \<Rightarrow> (st1\<lparr>active := set_var (active st1) (stmt_name s) v False\<rparr>, Inr ()))"

section \<open>Imports\<close>

text \<open>
  The host environment of a run: the source files by path, and the modules that
  \<^verbatim>\<open>importlib.import_module\<close> finds, each with its attributes.
\<close>

record world =
  files :: "string \<rightharpoonup> source"
  modules :: "string \<rightharpoonup> (string \<rightharpoonup> val)"

text \<open>
  Modelled from the spec: \<^verbatim>\<open>transform_to_string\<close> of a module path (in \<^verbatim>\<open>vast.py\<close>)
  gives the "dotted module path".
\<close>

fun transform_to_string :: "from_module \<Rightarrow> string" where
  "transform_to_string (ModName n) = n"
| "transform_to_string (ModAttribute n rest) = n @ concat (map (\<lambda>r. ''.'' @ r) rest)"

text \<open>The loop of \<^verbatim>\<open>_exec_std_import\<close> over \<^verbatim>\<open>stmt.importing\<close>.\<close>

fun std_bind :: "(string \<rightharpoonup> val) \<Rightarrow> stmt \<Rightarrow> string \<Rightarrow> ident list \<Rightarrow> runner \<Rightarrow> unit res" where
  "std_bind m s n [] st = (st, Inr ())"
| "std_bind m s n (i # is) st =
     (case m i of
        None \<Rightarrow> (st, Inl (StatementError s (ImportFailed i n)))
      | Some v \<Rightarrow> std_bind m s n is (st\<lparr>active := set_var (active st) i v False\<rparr>))"

fun exec_std_import :: "world \<Rightarrow> stmt \<Rightarrow> runner \<Rightarrow> unit res" where
  "exec_std_import w (Import l form names) st =
     (let n = transform_to_string form
      in case modules w (''violet.'' @ n) of
           None \<Rightarrow> (st, Inl (StatementError (Import l form names) (ModuleMissing n)))
         | Some m \<Rightarrow> std_bind m (Import l form names) n names st)"
| "exec_std_import w s st = (st, Inl (AttributeError ''from_module''))"

text \<open>
  The loop of \<^verbatim>\<open>_exec_local_import\<close>. \<open>new\<close> is what \<^verbatim>\<open>run()\<close> returned: \<open>None\<close> is
  Python's \<^verbatim>\<open>None\<close>, on which \<^verbatim>\<open>new.get_current_scope()\<close> raises \<^verbatim>\<open>AttributeError\<close>.
\<close>

definition lookup_in :: "runner option \<Rightarrow> ident \<Rightarrow> exn + val" where
  "lookup_in new i =
     (case new of
        None \<Rightarrow> Inl (AttributeError ''get_current_scope'')
      | Some r \<Rightarrow> get_var (active r) i)"

fun local_bind :: "runner option \<Rightarrow> stmt \<Rightarrow> string \<Rightarrow> ident list \<Rightarrow> runner \<Rightarrow> unit res" where
  "local_bind new s n [] st = (st, Inr ())"
| "local_bind new s n (i # is) st =
     (case lookup_in new i of
        Inl e \<Rightarrow> (st, Inl (if is_Exception e then StatementError s (ImportFailed i n) else e))
      | Inr v \<Rightarrow> local_bind new s n is (st\<lparr>active := set_var (active st) i v False\<rparr>))"

fun exec_local_import :: "file_runner \<Rightarrow> stmt \<Rightarrow> runner \<Rightarrow> unit res" where
  "exec_local_import orun (Import l (ModName n) names) st =
     (case orun (n @ ''.vi'') of
        Inl e \<Rightarrow>
          (case e of
             FileNotFoundError p \<Rightarrow>
               (st, Inl (StatementError (Import l (ModName n) names) (ModuleMissing n)))
           | _ \<Rightarrow> (st, Inl e))
      | Inr new \<Rightarrow> local_bind new (Import l (ModName n) names) n names st)"
| "exec_local_import orun s st = (st, Inl (AttributeError ''name''))"

text \<open>
  \<^verbatim>\<open>Runner._exec_import\<close>. A dotted path whose first name is not \<^verbatim>\<open>std\<close> falls out of
  the first branch and the method returns without doing anything.
\<close>

fun exec_import :: "file_runner \<Rightarrow> world \<Rightarrow> stmt \<Rightarrow> runner \<Rightarrow> unit res" where
  "exec_import orun w (Import l (ModAttribute n rest) names) st =
     (if n = ''std'' then exec_std_import w (Import l (ModAttribute n rest) names) st
      else (st, Inr ()))"
| "exec_import orun w (Import l (ModName n) names) st =
     (if n = ''std'' then exec_std_import w (Import l (ModName n) names) st
      else exec_local_import orun (Import l (ModName n) names) st)"
| "exec_import orun w s st = (st, Inl (AttributeError ''from_module''))"

section \<open>The two dispatchers\<close>

text \<open>The \<^verbatim>\<open>if\<close>/\<^verbatim>\<open>elif\<close> chain of \<^verbatim>\<open>exec_module_body\<close>, inside its \<^verbatim>\<open>try\<close>.\<close>

fun exec_module_stmt :: "evaluator \<Rightarrow> file_runner \<Rightarrow> world \<Rightarrow> stmt \<Rightarrow> runner \<Rightarrow> unit res" where
  "exec_module_stmt ev orun w (Import l form names) st = exec_import orun w (Import l form names) st"
| "exec_module_stmt ev orun w (Assignment l x ty e c g) st = exec_assignment ev (Assignment l x ty e c g) st"
| "exec_module_stmt ev orun w (Reassignment l x e) st = exec_assignment ev (Reassignment l x e) st"
| "exec_module_stmt ev orun w (Function l n ps bd) st = exec_function_spawn (Function l n ps bd) st"
| "exec_module_stmt ev orun w s st = (st, Inl (StatementError s (Unexpected (stmt_class s))))"

text \<open>
  The handler of \<^verbatim>\<open>exec_module_body\<close>:
  \<^verbatim>\<open>except Exception as e: if isinstance(e, StatementError): raise\<close>, else
  \<^verbatim>\<open>raise StatementError(statement, str(e))\<close>.
\<close>

definition boundary :: "stmt \<Rightarrow> exn \<Rightarrow> exn" where
  "boundary s e =
     (if is_Exception e then (if is_StatementError e then e else StatementError s (Str e))
      else e)"

fun exec_module_body :: "evaluator \<Rightarrow> file_runner \<Rightarrow> world \<Rightarrow> stmt list \<Rightarrow> runner \<Rightarrow> unit res" where
  "exec_module_body ev orun w [] st = (st, Inr ())"
| "exec_module_body ev orun w (s # ss) st =
     (case exec_module_stmt ev orun w s st of
        (st1, Inl e) \<Rightarrow> (st1, Inl (boundary s e))
      | (st1, Inr _) \<Rightarrow> exec_module_body ev orun w ss st1)"

text \<open>The chain of \<^verbatim>\<open>exec_function_body\<close>; no \<^verbatim>\<open>try\<close> stands around it.\<close>

fun exec_function_stmt :: "evaluator \<Rightarrow> controller \<Rightarrow> stmt \<Rightarrow> nat \<Rightarrow> runner \<Rightarrow> unit res" where
  "exec_function_stmt ev ctl (Assignment l x ty e c g) f st = exec_assignment ev (Assignment l x ty e c g) st"
| "exec_function_stmt ev ctl (Reassignment l x e) f st = exec_assignment ev (Reassignment l x e) st"
| "exec_function_stmt ev ctl (Return l eo) f st =
     (case exec_return ev (Return l eo) f st of
        (st1, Inl e) \<Rightarrow> (st1, Inl e)
      | (st1, Inr _) \<Rightarrow> (upd_func f (\<lambda>fo. fo\<lparr>return_flag := True\<rparr>) st1, Inr ()))"
| "exec_function_stmt ev ctl (FunctionCall l n args) f st =
     (case ev (Call n args) st of
        (st1, Inl e) \<Rightarrow> (st1, Inl e)
      | (st1, Inr _) \<Rightarrow> (st1, Inr ()))"
| "exec_function_stmt ev ctl (Control l c bd) f st = ctl (Control l c bd) f st"
| "exec_function_stmt ev ctl s f st = (st, Inl (StatementError s (Unexpected (stmt_class s))))"

fun exec_function_body :: "evaluator \<Rightarrow> controller \<Rightarrow> stmt list \<Rightarrow> nat \<Rightarrow> runner \<Rightarrow> unit res" where
  "exec_function_body ev ctl [] f st = (st, Inr ())"
| "exec_function_body ev ctl (s # ss) f st =
     (if return_flag (funcs st f) then (st, Inr ())
      else case exec_function_stmt ev ctl s f (st\<lparr>lineno := lineno st + 1\<rparr>) of
          (st1, Inl e) \<Rightarrow> (st1, Inl e)
        | (st1, Inr _) \<Rightarrow> exec_function_body ev ctl ss f st1)"

section \<open>The program driver\<close>

text \<open>
  The argument vector that \<^verbatim>\<open>run\<close> builds: a list holding the one string \<^verbatim>\<open>a\<close>.
\<close>

definition argv :: val where
  "argv = Obj CList (HList [HStr ''a''])"

text \<open>
  \<^verbatim>\<open>Runner.run\<close>. \<^verbatim>\<open>sys.exit(n)\<close> raises \<^verbatim>\<open>SystemExit\<close>. Output and the optional
  dump of the tree are left out; so is the handler for \<^verbatim>\<open>errors.Panic\<close>, which nothing
  here raises. The method has no \<^verbatim>\<open>return\<close> statement (\<^verbatim>\<open># return self\<close> is a comment),
  so on every path that completes it returns Python's \<^verbatim>\<open>None\<close>.
\<close>

definition run :: "evaluator \<Rightarrow> caller \<Rightarrow> file_runner \<Rightarrow> world \<Rightarrow> runner \<Rightarrow> exn + runner option" where
  "run ev calls orun w st =
     (case code st of
        ParseErrors \<Rightarrow> Inl (SystemExit 1)
      | Parsed bd \<Rightarrow>
          (case exec_module_body ev orun w bd st of
             (st1, Inl e) \<Rightarrow>
               (if is_StatementError e then (if debug st1 then Inl e else Inl (SystemExit 1))
                else Inl e)
           | (st1, Inr _) \<Rightarrow>
               (case get_var (active st1) ''main'' of
                  Inl e \<Rightarrow> (case e of VarNotFound y \<Rightarrow> Inl (SystemExit 1) | _ \<Rightarrow> Inl e)
                | Inr main \<Rightarrow>
                    (case with_new_scope (calls main [argv]) st1 of
                       (st2, Inl e) \<Rightarrow>
                         (if is_Exception e then (if debug st2 then Inl e else Inl (SystemExit 1))
                          else Inl e)
                     | (st2, Inr _) \<Rightarrow> Inr None))))"

text \<open>\<^verbatim>\<open>Runner.open(fp)\<close>: \<^verbatim>\<open>open\<close> raises \<^verbatim>\<open>FileNotFoundError\<close> for a missing file.\<close>

definition Runner_open :: "world \<Rightarrow> string \<Rightarrow> exn + runner" where
  "Runner_open w fp =
     (case files w fp of None \<Rightarrow> Inl (FileNotFoundError fp) | Some c \<Rightarrow> Inr (Runner c))"

section \<open>Evaluation of the syntax tree\<close>

text \<open>
  Modelled from the spec: the \<^verbatim>\<open>eval\<close> methods of the nodes and \<^verbatim>\<open>Function.__call__\<close>
  live in \<^verbatim>\<open>vast.py\<close> and \<^verbatim>\<open>objects.py\<close>. The spec's call protocol: "Allocate a new
  Environment whose parent is the caller's currently active environment", "Bind each
  formal parameter name to the corresponding supplied argument value in the new
  Environment", "Run the Statement Dispatcher over the function body", then "yield the
  recorded return value (void if no return executed)". Of the source the spec says that it
  "stores return flag/value/type as fields on the function value itself", which is what
  \<^verbatim>\<open>exec_function_body(self.body, self)\<close> and \<^verbatim>\<open>_exec_return\<close> read and write. What
  is cleared between calls the spec does not settle: it has the return type remembered
  "for the remainder of the function's definition", and it asks for a call frame "scoped
  to this invocation only" that is discarded after the body. No source decides it, so the
  engine leaves it open: \<open>clear_on_entry\<close> and \<open>clear_on_exit\<close> say when the flag and
  the value are cleared, and \<open>clear_type\<close> whether the return type is cleared with them.
  \<open>host_call\<close> is the call of a standard-library function. A conditional runs its
  block, with the same function object, when its condition is the boolean true; nested
  blocks "each get an isolated mutable namespace". An evaluation carries a budget that
  every step lowers; where it is used up the result is \<open>OutOfFuel\<close>.
\<close>

record engine =
  clear_on_entry :: bool
  clear_on_exit :: bool
  clear_type :: bool
  host_call :: "string \<Rightarrow> val list \<Rightarrow> exn + val"

text \<open>
  Modelled from the spec: clearing the flag and the value of a function object between
  calls ("discard the Environment and call frame"); \<^verbatim>\<open>Function.__call__\<close> is not in
  \<^verbatim>\<open>runner.py\<close>. Whether the return type goes with them is the engine's \<open>clear_type\<close>.
\<close>

definition clear_frame :: "engine \<Rightarrow> nat \<Rightarrow> runner \<Rightarrow> runner" where
  "clear_frame en f st =
     upd_func f
       (\<lambda>fo. fo\<lparr>return_flag := False, return_val := None,
                 return_type := (if clear_type en then None else return_type fo)\<rparr>) st"

text \<open>
  Modelled from the spec: "Bind each formal parameter name to the corresponding supplied
  argument value in the new Environment" (part of \<^verbatim>\<open>Function.__call__\<close>).
\<close>

fun bind_params :: "ident list \<Rightarrow> val list \<Rightarrow> scope \<Rightarrow> scope" where
  "bind_params (p # ps) (a # as) sc = bind_params ps as (set_var sc p a False)"
| "bind_params ps as sc = sc"

text \<open>
  Modelled from the spec: the arguments of a call are evaluated in order, and the first
  error ends the evaluation (\<^verbatim>\<open>FunctionCall.eval\<close>, in \<^verbatim>\<open>vast.py\<close>).
\<close>

fun eval_list :: "evaluator \<Rightarrow> expr list \<Rightarrow> runner \<Rightarrow> (val list) res" where
  "eval_list ev [] st = (st, Inr [])"
| "eval_list ev (e # es) st =
     (case ev e st of
        (st1, Inl err) \<Rightarrow> (st1, Inl err)
      | (st1, Inr v) \<Rightarrow>
          (case eval_list ev es st1 of
             (st2, Inl err) \<Rightarrow> (st2, Inl err)
           | (st2, Inr vs) \<Rightarrow> (st2, Inr (v # vs))))"

text \<open>
  Modelled from the spec: the condition of a "control-flow (conditional/loop)" statement
  holds when its value is the boolean true (\<^verbatim>\<open>Control.eval\<close>, in \<^verbatim>\<open>vast.py\<close>).
\<close>

definition truthy :: "val \<Rightarrow> bool" where
  "truthy v = (v = Obj CBoolean (HBool True))"

text \<open>
  Modelled from the spec: \<^verbatim>\<open>eval\<close> of a literal, of a name (through
  \<^verbatim>\<open>Runner.get_var\<close>) and of a call; \<^verbatim>\<open>Function.__call__\<close>, which opens the new scope
  with \<^verbatim>\<open>Runner.new_scope\<close>, binds the parameters, hands the function object itself to
  \<^verbatim>\<open>Runner.exec_function_body\<close> and yields its \<^verbatim>\<open>_return\<close>, or a void object; and
  \<^verbatim>\<open>eval(self, func)\<close> of a conditional.
\<close>

fun eval :: "nat \<Rightarrow> engine \<Rightarrow> expr \<Rightarrow> runner \<Rightarrow> val res"
  and call_value :: "nat \<Rightarrow> engine \<Rightarrow> val \<Rightarrow> val list \<Rightarrow> runner \<Rightarrow> val res"
  and control :: "nat \<Rightarrow> engine \<Rightarrow> stmt \<Rightarrow> nat \<Rightarrow> runner \<Rightarrow> unit res" where
  "eval 0 en e st = (st, Inl OutOfFuel)"
| "eval (Suc n) en (Primitive v) st = (st, Inr v)"
| "eval (Suc n) en (Name x) st = (st, get_var (active st) x)"
| "eval (Suc n) en (Call x args) st =
     (case get_var (active st) x of
        Inl err \<Rightarrow> (st, Inl err)
      | Inr fv \<Rightarrow>
          (case eval_list (eval n en) args st of
             (st1, Inl err) \<Rightarrow> (st1, Inl err)
           | (st1, Inr vs) \<Rightarrow> call_value n en fv vs st1))"
| "call_value 0 en fv vs st = (st, Inl OutOfFuel)"
| "call_value (Suc n) en (Fn f) vs st =
     with_new_scope
       (\<lambda>s0.
          let s1 = s0\<lparr>active := bind_params (params (funcs s0 f)) vs (active s0)\<rparr>;
              s2 = (if clear_on_entry en then clear_frame en f s1 else s1)
          in case exec_function_body (eval n en) (control n en) (body (funcs s2 f)) f s2 of
               (s3, Inl err) \<Rightarrow> (s3, Inl err)
             | (s3, Inr _) \<Rightarrow>
                 (if clear_on_exit en then clear_frame en f s3 else s3,
                  Inr (case return_val (funcs s3 f) of None \<Rightarrow> Obj CVoid HNone | Some v \<Rightarrow> v)))
       st"
| "call_value (Suc n) en (Thin (HFunc h)) vs st =
     (case host_call en h vs of Inl err \<Rightarrow> (st, Inl err) | Inr v \<Rightarrow> (st, Inr v))"
| "call_value (Suc n) en fv vs st = (st, Inl (TypeError ''not callable''))"
| "control 0 en s f st = (st, Inl OutOfFuel)"
| "control (Suc n) en (Control l c bd) f st =
     (case eval n en c st of
        (st1, Inl err) \<Rightarrow> (st1, Inl err)
      | (st1, Inr v) \<Rightarrow>
          (if truthy v
           then with_new_scope (exec_function_body (eval n en) (control n en) bd f) st1
           else (st1, Inr ())))"
| "control (Suc n) en s f st = (st, Inl (AttributeError ''eval''))"

text \<open>\<^verbatim>\<open>Runner.open(path).run()\<close> with the evaluation above, as a local import runs it.\<close>

fun open_run :: "nat \<Rightarrow> engine \<Rightarrow> world \<Rightarrow> string \<Rightarrow> exn + runner option" where
  "open_run 0 en w fp = Inl OutOfFuel"
| "open_run (Suc n) en w fp =
     (case Runner_open w fp of
        Inl e \<Rightarrow> Inl e
      | Inr r \<Rightarrow> run (eval n en) (call_value n en) (open_run n en w) w r)"

section \<open>Example states and programs\<close>

text \<open>A global scope with a mutable \<^verbatim>\<open>x\<close> and a const \<^verbatim>\<open>k\<close>, and a scope opened inside it.\<close>

definition demo_global :: scope where
  "demo_global =
     Scope [''x'' \<mapsto> Obj CInteger (HInt 1)] [''k'' \<mapsto> Obj CString (HStr ''c'')] None"

definition demo_child :: scope where
  "demo_child = Scope [''y'' \<mapsto> Obj CInteger (HInt 2)] Map.empty (Some demo_global)"

definition demo_runner :: runner where
  "demo_runner = (Runner (Parsed []))\<lparr>active := demo_child\<rparr>"

text \<open>
  An engine for the examples: flag and value are cleared on entry and on exit, the return
  type is kept.
\<close>

definition demo_engine :: engine where
  "demo_engine =
     \<lparr>clear_on_entry = True, clear_on_exit = True, clear_type = False,
      host_call = (\<lambda>h vs. Inr (Obj CVoid HNone))\<rparr>"

text \<open>\<^verbatim>\<open>x = 2\<close> and \<^verbatim>\<open>k = 2\<close> as reassignments, and a declaration \<^verbatim>\<open>x: Integer = "a"\<close>.\<close>

definition reassign_x :: stmt where
  "reassign_x = Reassignment 7 ''x'' (Primitive (Obj CInteger (HInt 2)))"

definition reassign_k :: stmt where
  "reassign_k = Reassignment 8 ''k'' (Primitive (Obj CString (HStr ''d'')))"

definition bad_decl :: stmt where
  "bad_decl =
     Assignment 4 ''x'' (Some (TypeId ''Integer'')) (Primitive (Obj CString (HStr ''a'')))
       False False"

text \<open>What \<^verbatim>\<open>set_var\<close> stores for a value.\<close>

definition stored :: "val \<Rightarrow> val" where
  "stored v = (if is_Object v \<or> is_Thin v then v else thin_wrap v)"

fun mod_root :: "from_module \<Rightarrow> ident" where
  "mod_root (ModName n) = n"
| "mod_root (ModAttribute n rest) = n"

text \<open>The requested names up to the first one that the module lacks.\<close>

definition resolved :: "(string \<rightharpoonup> val) \<Rightarrow> ident list \<Rightarrow> ident list" where
  "resolved m names = takeWhile (\<lambda>i. m i \<noteq> None) names"

text \<open>The runner with the names \<open>pre\<close> bound, mutable, to their attributes of the module.\<close>

definition bound_from :: "(string \<rightharpoonup> val) \<Rightarrow> ident list \<Rightarrow> runner \<Rightarrow> runner" where
  "bound_from m pre st =
     st\<lparr>active :=
          Scope (\<lambda>x. if x \<in> set pre then map_option stored (m x) else vars (active st) x)
            (const_vars (active st)) (parent (active st))\<rparr>"

text \<open>A standard library whose module \<^verbatim>\<open>std\<close> has the one attribute \<^verbatim>\<open>a\<close>.\<close>

definition std_world :: world where
  "std_world =
     \<lparr>files = Map.empty, modules = [''violet.std'' \<mapsto> [''a'' \<mapsto> Native (HFunc ''a'')]]\<rparr>"

definition import_a_b :: stmt where
  "import_a_b = Import 1 (ModName ''std'') [''a'', ''b'']"

text \<open>A file \<^verbatim>\<open>lib.vi\<close> that declares \<^verbatim>\<open>f\<close> and \<^verbatim>\<open>main\<close>, and an import of \<^verbatim>\<open>f\<close> from it.\<close>

definition lib_program :: "stmt list" where
  "lib_program = [Function 1 ''f'' [] [], Function 2 ''main'' [''args''] []]"

definition lib_world :: world where
  "lib_world = \<lparr>files = [''lib.vi'' \<mapsto> Parsed lib_program], modules = Map.empty\<rparr>"

definition import_f :: stmt where
  "import_f = Import 1 (ModName ''lib'') [''f'']"

text \<open>
  \<^verbatim>\<open>return 1\<close>, a \<^verbatim>\<open>return\<close> without a value, and the runner after \<^verbatim>\<open>return 1\<close> has
  been executed for the function object at address 0.
\<close>

definition return_1 :: stmt where
  "return_1 = Return 3 (Some (Primitive (Obj CInteger (HInt 1))))"

definition return_bare :: stmt where
  "return_bare = Return 9 None"

definition demo_typed :: runner where
  "demo_typed = fst (exec_return (eval 1 demo_engine) return_1 0 demo_runner)"



definition good_decl :: stmt where
  "good_decl = Assignment 2 ''n'' None (Primitive (Obj CInteger (HInt 3))) False False"

definition decl_unbound :: stmt where
  "decl_unbound = Assignment 6 ''w'' None (Name ''zz'') False False"

section \<open>Properties of the scope chain\<close>

lemma get_var_try_boxed:
  "\<forall>x. vs x \<noteq> Some (Native HNone) \<Longrightarrow> \<forall>x. cs x \<noteq> Some (Native HNone) \<Longrightarrow>
   get_var_try vs cs x =
     (case STD_TYPES x of
        Some c \<Rightarrow> Inr (Native (HClass c))
      | None \<Rightarrow>
          (case vs x of
             Some v \<Rightarrow> Inr v
           | None \<Rightarrow> (case cs x of Some v \<Rightarrow> Inr v | None \<Rightarrow> Inl (VarNotFound x))))"
  by (auto simp: get_var_try_def dict_get_def Let_def split: option.splits)

lemma get_var_eq_lookup_spec: "boxed s \<Longrightarrow> get_var s x = lookup_spec s x"
proof (induction s x rule: get_var.induct)
  case (1 vs cs par x)
  then show ?case
    by (auto simp: get_var_try_boxed split: option.splits)
qed

lemma get_var_unbound:
  "\<not> is_var_assigned s x True \<Longrightarrow> get_var s x = Inl (VarNotFound x)"
proof (induction s x rule: get_var.induct)
  case (1 vs cs par x)
  then show ?case
    by (auto simp: get_var_try_def dict_get_def split: option.splits)
qed

text \<open>
  No operation of a scope stores the bare host \<^verbatim>\<open>None\<close>: \<^verbatim>\<open>set_var\<close> wraps it, and
  \<^verbatim>\<open>reassign_var\<close> stores only a value with the type tag of the value it replaces.
\<close>

lemma class_name_NoneType: "class_name v = ''NoneType'' \<Longrightarrow> v = Native HNone"
proof (cases v)
  case (Obj c h)
  assume "class_name v = ''NoneType''"
  with Obj show ?thesis by (cases c) (simp_all add: class_name_def)
next
  case (Native h)
  assume "class_name v = ''NoneType''"
  with Native show ?thesis by (cases h) (simp_all add: class_name_def)
qed (simp_all add: class_name_def)

lemma boxed_set_var: "boxed s \<Longrightarrow> boxed (set_var s x v c)"
  by (cases s; cases v) (auto simp: Let_def)

lemma boxed_reassign_var: "boxed s \<Longrightarrow> boxed (fst (reassign_var s x v))"
proof (cases s)
  case (Scope vs cs par)
  assume b: "boxed s"
  show ?thesis
  proof (cases "vs x")
    case None
    with Scope b show ?thesis by simp
  next
    case (Some old)
    with Scope b have "old \<noteq> Native HNone" by auto
    then have "class_name old \<noteq> ''NoneType''" using class_name_NoneType by blast
    then have "class_name v = class_name old \<Longrightarrow> v \<noteq> Native HNone"
      by (auto simp: class_name_def)
    with Scope Some b show ?thesis by auto
  qed
qed

lemma boxed_apply_ops: "boxed s \<Longrightarrow> boxed (apply_ops s ops)"
  unfolding apply_ops_def
proof (induction ops arbitrary: s)
  case Nil
  then show ?case by simp
next
  case (Cons a ops)
  from Cons.prems have "boxed (apply_op s a)"
    by (cases a) (simp_all add: boxed_set_var boxed_reassign_var)
  from Cons.IH [OF this] show ?case by simp
qed

text \<open>
  \<^bold>\<open>C6\<close>. Lookup follows the order of the specification: on a chain whose bindings hold no
  bare host \<^verbatim>\<open>None\<close> (no scope operation stores one), \<^verbatim>\<open>get_var\<close> returns
  what the specified lookup returns: the built-in type first, then the mutable binding of
  the current environment, then its const binding, then whatever the parent finds. An
  identifier that no environment of the chain binds and that is no built-in type name makes
  the lookup fail with \<^verbatim>\<open>VarNotFound\<close> (the \<^verbatim>\<open>NameError\<close> of the specification), raised
  where there is no parent.
\<close>

theorem get_var_order:
  "(boxed s \<longrightarrow> get_var s x = lookup_spec s x) \<and>
   (\<not> is_var_assigned s x True \<longrightarrow> get_var s x = Inl (VarNotFound x))"
  using get_var_eq_lookup_spec get_var_unbound by blast

theorem get_var_order_witness:
  "boxed demo_child \<and> get_var demo_child ''k'' = Inr (Obj CString (HStr ''c'')) \<and>
   \<not> is_var_assigned demo_child ''z'' True \<and>
   get_var demo_child ''z'' = Inl (VarNotFound ''z'')"
proof -
  have b: "boxed demo_child"
    by (simp add: demo_child_def demo_global_def)
  have u: "\<not> is_var_assigned demo_child ''z'' True"
    by (simp add: demo_child_def demo_global_def STD_TYPES_def)
  have l: "lookup_spec demo_child ''k'' = Inr (Obj CString (HStr ''c''))"
    by (simp add: demo_child_def demo_global_def STD_TYPES_def)
  have 1: "get_var demo_child ''k'' = lookup_spec demo_child ''k''"
    using get_var_order [of demo_child "''k''"] b by blast
  have 2: "get_var demo_child ''z'' = Inl (VarNotFound ''z'')"
    using get_var_order [of demo_child "''z''"] u by blast
  show ?thesis using b u 1 2 l by simp
qed








lemma dom_set_var:
  "dom (vars (set_var s x v c)) = (if c then dom (vars s) else insert x (dom (vars s))) \<and>
   dom (const_vars (set_var s x v c)) =
     (if c then insert x (dom (const_vars s)) else dom (const_vars s))"
  by (cases s) (auto simp: Let_def)

lemma dom_reassign_var:
  "dom (vars (fst (reassign_var s x v))) = dom (vars s) \<and>
   dom (const_vars (fst (reassign_var s x v))) = dom (const_vars s)"
  by (cases s) (auto split: option.splits sum.splits)

lemma dom_apply_op:
  "dom (vars (apply_op s a)) = dom (vars s) \<union> declares False a \<and>
   dom (const_vars (apply_op s a)) = dom (const_vars s) \<union> declares True a"
  by (cases a) (auto simp: dom_set_var dom_reassign_var)

lemma dom_apply_ops:
  "dom (vars (apply_ops s ops)) = dom (vars s) \<union> declared False ops \<and>
   dom (const_vars (apply_ops s ops)) = dom (const_vars s) \<union> declared True ops"
  unfolding apply_ops_def declared_def
  by (induction ops arbitrary: s) (auto simp: dom_apply_op)

text \<open>
  \<^bold>\<open>C9\<close>, as the code has it. \<^verbatim>\<open>set_var\<close> writes the mapping that the \<^verbatim>\<open>const\<close> flag
  selects and leaves the other one alone, and \<^verbatim>\<open>reassign_var\<close> adds no key. So after any
  sequence of declare and reassign operations on an environment, an identifier is in both
  mappings exactly when each mapping either held it before or had it declared by the
  sequence. On a new environment that is: exactly when the sequence declared it both
  mutable and const; an identifier declared one way only is in at most one mapping.
\<close>

theorem both_mappings_iff:
  "x \<in> dom (vars (apply_ops s ops)) \<inter> dom (const_vars (apply_ops s ops)) \<longleftrightarrow>
     (x \<in> dom (vars s) \<or> x \<in> declared False ops) \<and>
     (x \<in> dom (const_vars s) \<or> x \<in> declared True ops)"
  by (simp add: dom_apply_ops)

text \<open>Declared mutable, then const: the identifier is in both mappings.\<close>

theorem both_mappings_counterexample:
  "''x'' \<in> dom (vars (apply_ops new_Scope
       [Declare ''x'' (Obj CInteger (HInt 1)) False, Declare ''x'' (Obj CInteger (HInt 2)) True])) \<and>
   ''x'' \<in> dom (const_vars (apply_ops new_Scope
       [Declare ''x'' (Obj CInteger (HInt 1)) False, Declare ''x'' (Obj CInteger (HInt 2)) True]))"
  by (simp add: apply_ops_def new_Scope_def)

section \<open>Reassignment\<close>

text \<open>
  \<^bold>\<open>C2\<close>, where the code departs from it. In \<open>demo_runner\<close> the current scope is a child of
  the global scope, which binds \<^verbatim>\<open>x\<close> (mutable) and \<^verbatim>\<open>k\<close> (const); both are visible
  from the child. Reassigning \<^verbatim>\<open>x\<close> there does not reach the global binding, and
  reassigning \<^verbatim>\<open>k\<close> does not report the const violation: \<^verbatim>\<open>reassign_var\<close> looks in the
  current scope only, and \<^verbatim>\<open>self.vars[identifier]\<close> raises \<^verbatim>\<open>KeyError\<close>.
\<close>

theorem reassign_outer_binding_raises:
  "get_var (active demo_runner) ''x'' = Inr (Obj CInteger (HInt 1)) \<and>
   exec_assignment (eval 1 demo_engine) reassign_x demo_runner =
     (demo_runner, Inl (StatementError reassign_x (Str (KeyError ''x'')))) \<and>
   get_var (active demo_runner) ''k'' = Inr (Obj CString (HStr ''c'')) \<and>
   exec_assignment (eval 1 demo_engine) reassign_k demo_runner =
     (demo_runner, Inl (StatementError reassign_k (Str (KeyError ''k''))))"
  by (simp add: demo_runner_def demo_child_def demo_global_def reassign_x_def reassign_k_def
      Runner_def get_var_try_def dict_get_def STD_TYPES_def rewrap_def)

section \<open>Imports\<close>

lemma set_var_mutable:
  "set_var s x v False = Scope ((vars s)(x \<mapsto> stored v)) (const_vars s) (parent s)"
  by (cases s) (simp add: stored_def)

lemma std_bind_failed:
  "std_bind m s n names st = (st', Inl e) \<Longrightarrow> st' = bound_from m (resolved m names) st"
proof (induction names arbitrary: st)
  case Nil
  then show ?case by simp
next
  case (Cons i ns)
  show ?case
  proof (cases "m i")
    case None
    with Cons.prems have "st' = st" by simp
    with None show ?thesis by (simp add: bound_from_def resolved_def)
  next
    case (Some v)
    let ?st1 = "st\<lparr>active := set_var (active st) i v False\<rparr>"
    from Some Cons.prems have "std_bind m s n ns ?st1 = (st', Inl e)" by simp
    from Cons.IH [OF this] have "st' = bound_from m (resolved m ns) ?st1" .
    with Some show ?thesis
      by (auto simp: bound_from_def resolved_def set_var_mutable fun_eq_iff)
  qed
qed

lemma run_returns_None: "run ev calls orun w st = Inr x \<Longrightarrow> x = None"
  by (auto simp: run_def split: source.splits prod.splits sum.splits if_splits exn.splits)

lemma open_run_returns_None: "open_run n en w fp = Inr x \<Longrightarrow> x = None"
  by (cases n) (auto split: sum.splits dest: run_returns_None)

lemma local_bind_None_failed: "local_bind None s n names st = (st', Inl e) \<Longrightarrow> st' = st"
  by (cases names) (auto simp: lookup_in_def)

lemma exec_local_import_failed:
  "exec_local_import (open_run n en w) s st = (st', Inl e) \<Longrightarrow> st' = st"
proof (induction "open_run n en w" s st rule: exec_local_import.induct)
  case (1 l m names st)
  show ?case
  proof (cases "open_run n en w (m @ ''.vi'')")
    case (Inl e0)
    with 1 show ?thesis by (auto split: exn.splits)
  next
    case (Inr new)
    then have "new = None" by (rule open_run_returns_None)
    with Inr 1 show ?thesis by (auto dest: local_bind_None_failed)
  qed
qed auto

text \<open>
  \<^bold>\<open>C3\<close>, as the code has it. An import that fails leaves the importing runner as follows.
  A local-file import has bound nothing. A standard-library import whose module does not
  exist has bound nothing; one whose module exists has bound, in the current scope, exactly
  the requested names that come before the first name the module lacks, each to the
  module's attribute as \<^verbatim>\<open>set_var\<close> stores it, and nothing else has changed.
\<close>

theorem failed_import_bindings:
  assumes "exec_import (open_run n en w) w (Import l form names) st = (st', Inl e)"
  shows "st' =
     (if mod_root form = ''std''
      then (case modules w (''violet.'' @ transform_to_string form) of
              None \<Rightarrow> st
            | Some m \<Rightarrow> bound_from m (resolved m names) st)
      else st)"
proof (cases form)
  case (ModName m)
  with assms show ?thesis
    by (auto simp: Let_def split: if_splits option.splits
        dest: std_bind_failed exec_local_import_failed simp del: exec_local_import.simps)
next
  case (ModAttribute m rest)
  with assms show ?thesis
    by (auto simp: Let_def split: if_splits option.splits dest: std_bind_failed)
qed

text \<open>
  Importing \<^verbatim>\<open>a\<close> and \<^verbatim>\<open>b\<close> from a module that has only \<^verbatim>\<open>a\<close> fails, and \<^verbatim>\<open>a\<close> is
  bound in the importing scope afterwards.
\<close>

theorem failed_import_counterexample:
  "snd (exec_import (open_run 1 demo_engine std_world) std_world import_a_b
     (Runner (Parsed []))) =
     Inl (StatementError import_a_b (ImportFailed ''b'' ''std'')) \<and>
   vars (active (fst (exec_import (open_run 1 demo_engine std_world) std_world import_a_b
     (Runner (Parsed []))))) ''a'' = Some (Thin (HFunc ''a''))"
  by (simp add: std_world_def import_a_b_def Runner_def new_Scope_def Let_def)

theorem failed_import_bindings_witness:
  "exec_import (open_run 1 demo_engine std_world) std_world import_a_b (Runner (Parsed [])) =
     (bound_from [''a'' \<mapsto> Native (HFunc ''a'')] [''a''] (Runner (Parsed [])),
      Inl (StatementError import_a_b (ImportFailed ''b'' ''std'')))"
proof -
  obtain st' r where p: "exec_import (open_run 1 demo_engine std_world) std_world
      (Import 1 (ModName ''std'') [''a'', ''b'']) (Runner (Parsed [])) = (st', r)"
    by (cases "exec_import (open_run 1 demo_engine std_world) std_world
      (Import 1 (ModName ''std'') [''a'', ''b'']) (Runner (Parsed []))")
  then have r: "r = Inl (StatementError import_a_b (ImportFailed ''b'' ''std''))"
    by (auto simp: std_world_def import_a_b_def Let_def)
  from failed_import_bindings [OF p [unfolded r]]
  have "st' = bound_from [''a'' \<mapsto> Native (HFunc ''a'')] [''a''] (Runner (Parsed []))"
    by (simp add: std_world_def resolved_def)
  with p r show ?thesis by (simp add: import_a_b_def)
qed

text \<open>
  \<^bold>\<open>C4\<close>, where the code departs from it. The file \<^verbatim>\<open>lib.vi\<close> exists and its run
  completes; its top level binds \<^verbatim>\<open>f\<close> in its root environment. But \<^verbatim>\<open>run\<close> returns
  \<^verbatim>\<open>None\<close>, so the import of \<^verbatim>\<open>f\<close> fails at \<^verbatim>\<open>new.get_current_scope()\<close> and nothing is
  copied.
\<close>

theorem local_import_of_bound_name_fails:
  "open_run 3 demo_engine lib_world ''lib.vi'' = Inr None \<and>
   is_var_assigned
     (active (fst (exec_module_body (eval 2 demo_engine) (open_run 2 demo_engine lib_world)
        lib_world lib_program (Runner (Parsed lib_program))))) ''f'' False \<and>
   exec_import (open_run 3 demo_engine lib_world) lib_world import_f (Runner (Parsed [])) =
     (Runner (Parsed []), Inl (StatementError import_f (ImportFailed ''f'' ''lib'')))"
proof -
  have a: "open_run 3 demo_engine lib_world ''lib.vi'' = Inr None"
    by (simp add: numeral_3_eq_3 numeral_2_eq_2 run_def Runner_open_def lib_world_def
        lib_program_def demo_engine_def Runner_def new_Scope_def exec_function_spawn_def
        with_new_scope_def push_scope_def pop_scope_def get_var_try_def dict_get_def
        STD_TYPES_def argv_def clear_frame_def upd_func_def new_func_def Let_def)
  have b: "is_var_assigned
     (active (fst (exec_module_body (eval 2 demo_engine) (open_run 2 demo_engine lib_world)
        lib_world lib_program (Runner (Parsed lib_program))))) ''f'' False"
    by (simp add: Runner_def new_Scope_def exec_function_spawn_def STD_TYPES_def Let_def
        lib_program_def)
  have c: "exec_import (open_run 3 demo_engine lib_world) lib_world import_f
      (Runner (Parsed [])) =
     (Runner (Parsed []), Inl (StatementError import_f (ImportFailed ''f'' ''lib'')))"
    using a by (simp add: import_f_def lookup_in_def)
  from a b c show ?thesis by simp
qed

section \<open>The statement boundary\<close>

lemma exec_module_body_error:
  "exec_module_body ev orun w ss st = (st', Inl e) \<Longrightarrow>
     \<exists>s st0 e0. s \<in> set ss \<and> exec_module_stmt ev orun w s st0 = (st', Inl e0) \<and>
        e = (if is_Exception e0
             then (if is_StatementError e0 then e0 else StatementError s (Str e0))
             else e0)"
proof (induction ss arbitrary: st)
  case Nil
  then show ?case by simp
next
  case (Cons s ss)
  show ?case
  proof (cases "exec_module_stmt ev orun w s st")
    case (Pair st1 r)
    show ?thesis
    proof (cases r)
      case (Inl e0)
      with Pair Cons.prems have "st' = st1" "e = boundary s e0" by auto
      with Pair Inl show ?thesis
        unfolding boundary_def by (intro exI [of _ s] exI [of _ st] exI [of _ e0]) simp
    next
      case (Inr u)
      with Pair Cons.prems have "exec_module_body ev orun w ss st1 = (st', Inl e)" by simp
      from Cons.IH [OF this] obtain s' st0 e0 where
        "s' \<in> set ss" and "exec_module_stmt ev orun w s' st0 = (st', Inl e0)" and
        "e = (if is_Exception e0
              then (if is_StatementError e0 then e0 else StatementError s' (Str e0))
              else e0)"
        by blast
      moreover from \<open>s' \<in> set ss\<close> have "s' \<in> set (s # ss)" by simp
      ultimately show ?thesis by blast
    qed
  qed
qed

lemma exec_function_body_error:
  "exec_function_body ev ctl bd f st = (st', Inl e) \<Longrightarrow>
     \<exists>s st0. s \<in> set bd \<and> exec_function_stmt ev ctl s f st0 = (st', Inl e)"
proof (induction bd arbitrary: st)
  case Nil
  then show ?case by simp
next
  case (Cons s ss)
  show ?case
  proof (cases "return_flag (funcs st f)")
    case True
    with Cons.prems show ?thesis by simp
  next
    case False
    show ?thesis
    proof (cases "exec_function_stmt ev ctl s f (st\<lparr>lineno := lineno st + 1\<rparr>)")
      case (Pair st1 r)
      show ?thesis
      proof (cases r)
        case (Inl e0)
        with Pair False Cons.prems have "st' = st1" "e = e0" by auto
        with Pair Inl show ?thesis
          by (intro exI [of _ s] exI [of _ "st\<lparr>lineno := lineno st + 1\<rparr>"]) simp
      next
        case (Inr u)
        with Pair False Cons.prems have "exec_function_body ev ctl ss f st1 = (st', Inl e)"
          by simp
        from Cons.IH [OF this] obtain s' st0 where
          "s' \<in> set ss" and "exec_function_stmt ev ctl s' f st0 = (st', Inl e)"
          by blast
        moreover from \<open>s' \<in> set ss\<close> have "s' \<in> set (s # ss)" by simp
        ultimately show ?thesis by blast
      qed
    qed
  qed
qed

lemma exec_module_body_append:
  "exec_module_body ev orun w (pre @ rest) st =
     (case exec_module_body ev orun w pre st of
        (st1, Inl e) \<Rightarrow> (st1, Inl e)
      | (st1, Inr u) \<Rightarrow> exec_module_body ev orun w rest st1)"
  by (induction pre arbitrary: st) (auto split: prod.splits sum.splits)

lemma exec_function_body_flag:
  "return_flag (funcs st f) \<Longrightarrow> exec_function_body ev ctl bd f st = (st, Inr ())"
  by (cases bd) auto

lemma exec_function_body_append:
  "exec_function_body ev ctl (pre @ rest) f st =
     (case exec_function_body ev ctl pre f st of
        (st1, Inl e) \<Rightarrow> (st1, Inl e)
      | (st1, Inr u) \<Rightarrow> exec_function_body ev ctl rest f st1)"
  by (induction pre arbitrary: st)
    (auto simp: exec_function_body_flag split: prod.splits sum.splits)

lemma exec_module_body_raises:
  assumes "exec_module_body ev orun w pre st = (st1, Inr ())"
    and "exec_module_stmt ev orun w s st1 = (st2, Inl e0)"
  shows "exec_module_body ev orun w (pre @ s # post) st =
     (st2, Inl (if is_Exception e0
                then (if is_StatementError e0 then e0 else StatementError s (Str e0))
                else e0))"
  using assms by (simp add: exec_module_body_append boundary_def)

lemma exec_function_body_raises:
  assumes "exec_function_body ev ctl pre f st = (st1, Inr ())"
    and "\<not> return_flag (funcs st1 f)"
    and "exec_function_stmt ev ctl s f (st1\<lparr>lineno := lineno st1 + 1\<rparr>) = (st2, Inl e0)"
  shows "exec_function_body ev ctl (pre @ s # post) f st = (st2, Inl e0)"
  using assms by (simp add: exec_function_body_append)

lemma exec_assignment_wraps:
  assumes "ev x st = (st1, Inl e0)"
  shows "exec_assignment ev (Assignment l y ty x c g) st =
       (st1, Inl (if is_Exception e0 then StatementError (Assignment l y ty x c g) (Str e0)
                  else e0)) \<and>
     exec_assignment ev (Reassignment l y x) st =
       (st1, Inl (if is_Exception e0 then StatementError (Reassignment l y x) (Str e0)
                  else e0))"
  using assms by (simp add: rewrap_def)

lemma exec_module_body_error_kind:
  assumes "exec_module_body ev orun w ss st = (st', Inl e)" and "is_Exception e"
  shows "is_StatementError e"
  using exec_module_body_error [OF assms(1)] assms(2) by (auto split: if_splits)

text \<open>
  \<^bold>\<open>C5\<close>, as the code has it. At top level, when the statements before \<open>s\<close> have run and
  the executor of \<open>s\<close> raises \<open>e0\<close>, the dispatcher stops there and raises: \<open>e0\<close> itself
  if it is a \<^verbatim>\<open>StatementError\<close> or no \<^verbatim>\<open>Exception\<close> at all (a \<^verbatim>\<open>SystemExit\<close>), and
  otherwise a \<^verbatim>\<open>StatementError\<close> that carries \<open>s\<close>, with its line, and the text of \<open>e0\<close>.
  Every error that leaves the top-level dispatcher arises so; an \<^verbatim>\<open>Exception\<close> that leaves
  it is a \<^verbatim>\<open>StatementError\<close>. The function-body dispatcher has no such boundary: when the
  statements before \<open>s\<close> have run, no return has set the flag and the executor of \<open>s\<close>
  raises \<open>e0\<close>, the dispatcher raises \<open>e0\<close> as it is, and every error that leaves it
  arises so. At both levels the executor of an assignment wraps every \<^verbatim>\<open>Exception\<close> that
  the evaluation of its right-hand side raises in a \<^verbatim>\<open>StatementError\<close> that carries the
  assignment, also one that is a \<^verbatim>\<open>StatementError\<close> already.
\<close>

theorem statement_boundary:
  "(exec_module_body ev orun w pre st = (st1, Inr ()) \<and>
    exec_module_stmt ev orun w s st1 = (st2, Inl e0) \<longrightarrow>
      exec_module_body ev orun w (pre @ s # post) st =
        (st2, Inl (if is_Exception e0
                   then (if is_StatementError e0 then e0 else StatementError s (Str e0))
                   else e0))) \<and>
   (exec_module_body ev orun w ss st = (st', Inl e) \<longrightarrow>
      (is_Exception e \<longrightarrow> is_StatementError e) \<and>
      (\<exists>s' st0 e'. s' \<in> set ss \<and> exec_module_stmt ev orun w s' st0 = (st', Inl e') \<and>
         e = (if is_Exception e'
              then (if is_StatementError e' then e' else StatementError s' (Str e'))
              else e'))) \<and>
   (exec_function_body ev ctl pre f st = (st1, Inr ()) \<and> \<not> return_flag (funcs st1 f) \<and>
    exec_function_stmt ev ctl s f (st1\<lparr>lineno := lineno st1 + 1\<rparr>) = (st2, Inl e0) \<longrightarrow>
      exec_function_body ev ctl (pre @ s # post) f st = (st2, Inl e0)) \<and>
   (exec_function_body ev ctl bd f st = (st', Inl e) \<longrightarrow>
      (\<exists>s' st0. s' \<in> set bd \<and> exec_function_stmt ev ctl s' f st0 = (st', Inl e))) \<and>
   (ev x st = (st1, Inl e0) \<longrightarrow>
      exec_assignment ev (Assignment l y ty x c g) st =
        (st1, Inl (if is_Exception e0 then StatementError (Assignment l y ty x c g) (Str e0)
                   else e0)) \<and>
      exec_assignment ev (Reassignment l y x) st =
        (st1, Inl (if is_Exception e0 then StatementError (Reassignment l y x) (Str e0)
                   else e0)))"
proof (intro conjI impI)
  assume "exec_module_body ev orun w pre st = (st1, Inr ()) \<and>
    exec_module_stmt ev orun w s st1 = (st2, Inl e0)"
  then show "exec_module_body ev orun w (pre @ s # post) st =
        (st2, Inl (if is_Exception e0
                   then (if is_StatementError e0 then e0 else StatementError s (Str e0))
                   else e0))"
    using exec_module_body_raises by blast
next
  assume a: "exec_module_body ev orun w ss st = (st', Inl e)"
  from exec_module_body_error [OF a]
  show "\<exists>s' st0 e'. s' \<in> set ss \<and> exec_module_stmt ev orun w s' st0 = (st', Inl e') \<and>
         e = (if is_Exception e'
              then (if is_StatementError e' then e' else StatementError s' (Str e'))
              else e')" .
  assume "is_Exception e"
  with a show "is_StatementError e" by (rule exec_module_body_error_kind)
next
  assume "exec_function_body ev ctl pre f st = (st1, Inr ()) \<and> \<not> return_flag (funcs st1 f) \<and>
    exec_function_stmt ev ctl s f (st1\<lparr>lineno := lineno st1 + 1\<rparr>) = (st2, Inl e0)"
  then show "exec_function_body ev ctl (pre @ s # post) f st = (st2, Inl e0)"
    using exec_function_body_raises by blast
next
  assume "exec_function_body ev ctl bd f st = (st', Inl e)"
  from exec_function_body_error [OF this]
  show "\<exists>s' st0. s' \<in> set bd \<and> exec_function_stmt ev ctl s' f st0 = (st', Inl e)" .
next
  assume a: "ev x st = (st1, Inl e0)"
  note w = exec_assignment_wraps [where ev = ev and x = x and st = st and ?st1.0 = st1
      and ?e0.0 = e0 and l = l and y = y and ty = ty and c = c and g = g]
  from w a
  show "exec_assignment ev (Assignment l y ty x c g) st =
        (st1, Inl (if is_Exception e0 then StatementError (Assignment l y ty x c g) (Str e0)
                   else e0))"
    by blast
  from w a
  show "exec_assignment ev (Reassignment l y x) st =
        (st1, Inl (if is_Exception e0 then StatementError (Reassignment l y x) (Str e0)
                   else e0))"
    by blast
qed

text \<open>
  In a function body, \<^verbatim>\<open>return\<close> without an expression raises a bare \<^verbatim>\<open>NameError\<close>, and a
  declaration whose value does not match its annotation a bare type mismatch.
\<close>

theorem statement_boundary_counterexample:
  "exec_function_body (eval 1 demo_engine) (control 1 demo_engine) [Return 3 None] 0
     demo_runner =
     (demo_runner\<lparr>lineno := 1\<rparr>, Inl (NameError ''Void'')) \<and>
   exec_function_body (eval 1 demo_engine) (control 1 demo_engine) [bad_decl] 0 demo_runner =
     (demo_runner\<lparr>lineno := 1\<rparr>,
      Inl (TypeMismatch (TypeId ''Integer'') (Obj CString (HStr ''a''))))"
  by (simp add: demo_runner_def Runner_def new_func_def bad_decl_def class_name_def)

text \<open>
  The statements \<^verbatim>\<open>n = 3\<close>, \<^verbatim>\<open>x: Integer = "a"\<close>, \<^verbatim>\<open>x = 2\<close> at top level and in a
  function body, and the declaration \<^verbatim>\<open>w = zz\<close> of an unbound name.
\<close>

theorem statement_boundary_witness:
  "snd (exec_module_body (eval 1 demo_engine) (open_run 1 demo_engine std_world) std_world
     [good_decl, bad_decl, reassign_x] demo_runner) =
     Inl (StatementError bad_decl
       (Str (TypeMismatch (TypeId ''Integer'') (Obj CString (HStr ''a''))))) \<and>
   snd (exec_function_body (eval 1 demo_engine) (control 1 demo_engine)
     [good_decl, bad_decl, reassign_x] 0 demo_runner) =
     Inl (TypeMismatch (TypeId ''Integer'') (Obj CString (HStr ''a''))) \<and>
   snd (exec_assignment (eval 1 demo_engine) decl_unbound demo_runner) =
     Inl (StatementError decl_unbound (Str (VarNotFound ''zz'')))"
proof -
  let ?E = "eval 1 demo_engine" and ?O = "open_run 1 demo_engine std_world"
  let ?C = "control 1 demo_engine"
  let ?e = "TypeMismatch (TypeId ''Integer'') (Obj CString (HStr ''a''))"
  let ?st1 = "demo_runner\<lparr>active := set_var demo_child ''n'' (Obj CInteger (HInt 3)) False\<rparr>"
  let ?st1' = "demo_runner\<lparr>active := set_var demo_child ''n'' (Obj CInteger (HInt 3)) False,
      lineno := 1\<rparr>"
  have a1: "exec_module_body ?E ?O std_world [good_decl] demo_runner = (?st1, Inr ())"
    by (simp add: good_decl_def demo_runner_def)
  have a2: "exec_module_stmt ?E ?O std_world bad_decl ?st1 = (?st1, Inl ?e)"
    by (simp add: bad_decl_def class_name_def)
  from statement_boundary [where ev = ?E and orun = ?O and w = std_world and pre = "[good_decl]"
      and st = demo_runner and ?st1.0 = ?st1 and s = bad_decl and ?st2.0 = ?st1 and ?e0.0 = ?e
      and post = "[reassign_x]"] a1 a2
  have 1: "snd (exec_module_body ?E ?O std_world [good_decl, bad_decl, reassign_x]
      demo_runner) = Inl (StatementError bad_decl (Str ?e))"
    by simp
  have b1: "exec_function_body ?E ?C [good_decl] 0 demo_runner = (?st1', Inr ())"
    by (simp add: good_decl_def demo_runner_def Runner_def new_func_def)
  have b2: "\<not> return_flag (funcs ?st1' 0)"
    by (simp add: demo_runner_def Runner_def new_func_def)
  have b3: "exec_function_stmt ?E ?C bad_decl 0 (?st1'\<lparr>lineno := lineno ?st1' + 1\<rparr>) =
      (?st1'\<lparr>lineno := lineno ?st1' + 1\<rparr>, Inl ?e)"
    by (simp add: bad_decl_def class_name_def)
  from statement_boundary [where ev = ?E and ctl = ?C and pre = "[good_decl]" and f = 0
      and st = demo_runner and ?st1.0 = ?st1' and s = bad_decl
      and ?st2.0 = "?st1'\<lparr>lineno := lineno ?st1' + 1\<rparr>" and ?e0.0 = ?e
      and post = "[reassign_x]"] b1 b2 b3
  have 2: "snd (exec_function_body ?E ?C [good_decl, bad_decl, reassign_x] 0 demo_runner) =
      Inl ?e"
    by simp
  have c1: "?E (Name ''zz'') demo_runner = (demo_runner, Inl (VarNotFound ''zz''))"
    by (simp add: demo_runner_def demo_child_def demo_global_def get_var_try_def dict_get_def
        STD_TYPES_def)
  from statement_boundary [where ev = ?E and x = "Name ''zz''" and st = demo_runner
      and ?st1.0 = demo_runner and ?e0.0 = "VarNotFound ''zz''" and l = 6 and y = "''w''"
      and ty = None and c = False and g = False] c1
  have 3: "snd (exec_assignment ?E decl_unbound demo_runner) =
      Inl (StatementError decl_unbound (Str (VarNotFound ''zz'')))"
    by (simp add: decl_unbound_def)
  from 1 2 3 show ?thesis by simp
qed

section \<open>Return\<close>

text \<open>
  \<^bold>\<open>C10\<close>, as the code has it. When the value of a \<^verbatim>\<open>return\<close> is no instance of
  \<^verbatim>\<open>objects.Object\<close> and the function's return type is not yet inferred, the return never
  completes: \<^verbatim>\<open>wrap_py_type\<close> raises \<^verbatim>\<open>NameError\<close> (for \<^verbatim>\<open>self\<close>) when the value's host
  type is one of the four keys of \<^verbatim>\<open>_PY_TYPES\<close>, and \<^verbatim>\<open>KeyError\<close> otherwise, since the
  table is indexed before the arguments are evaluated. The runner is left as the
  evaluation of the expression left it.
\<close>

theorem exec_return_native:
  assumes "ev e st = (st1, Inr v)" and "\<not> is_Object v"
    and "return_type (funcs st1 f) = None"
  shows "exec_return ev (Return l (Some e)) f st =
     (st1, Inl (if type_of v \<in> {PyInt, PyStr, PyNoneType, PyList} then NameError ''self''
                else KeyError (type_name (type_of v))))"
  using assms by (auto simp: wrap_py_type_def PY_TYPES_def)

text \<open>
  \<^verbatim>\<open>return Integer\<close>: the name evaluates to the class object \<^verbatim>\<open>objects.Integer\<close>, a host
  value of type \<^verbatim>\<open>type\<close>, and the error is a \<^verbatim>\<open>KeyError\<close>.
\<close>

theorem exec_return_native_counterexample:
  "eval 1 demo_engine (Name ''Integer'') demo_runner =
     (demo_runner, Inr (Native (HClass CInteger))) \<and>
   \<not> is_Object (Native (HClass CInteger)) \<and>
   return_type (funcs demo_runner 0) = None \<and>
   exec_return (eval 1 demo_engine) (Return 3 (Some (Name ''Integer''))) 0 demo_runner =
     (demo_runner, Inl (KeyError ''type''))"
  by (simp add: demo_runner_def demo_child_def demo_global_def Runner_def new_func_def
      get_var_try_def dict_get_def STD_TYPES_def wrap_py_type_def PY_TYPES_def)

theorem exec_return_native_witness:
  "eval 1 demo_engine (Primitive (Native (HInt 5))) demo_runner =
     (demo_runner, Inr (Native (HInt 5))) \<and>
   \<not> is_Object (Native (HInt 5)) \<and> return_type (funcs demo_runner 0) = None \<and>
   exec_return (eval 1 demo_engine) (Return 3 (Some (Primitive (Native (HInt 5))))) 0
     demo_runner = (demo_runner, Inl (NameError ''self''))"
proof -
  have a: "eval 1 demo_engine (Primitive (Native (HInt 5))) demo_runner =
     (demo_runner, Inr (Native (HInt 5)))"
    by simp
  have b: "\<not> is_Object (Native (HInt 5))" by simp
  have c: "return_type (funcs demo_runner 0) = None"
    by (simp add: demo_runner_def Runner_def new_func_def)
  from exec_return_native [of "eval 1 demo_engine" "Primitive (Native (HInt 5))" demo_runner
      demo_runner "Native (HInt 5)" 0 3] a b c
  show ?thesis by simp
qed

section \<open>Return without a value\<close>

lemma demo_typed_eq:
  "exec_return (eval 1 demo_engine) return_1 0 demo_runner = (demo_typed, Inr ())"
  by (simp add: demo_typed_def return_1_def demo_runner_def Runner_def new_func_def
      check_and_store_def upd_func_def get_type_def class_name_def)

lemma demo_typed_type: "return_type (funcs demo_typed 0) = Some (TypeId ''Integer'')"
  by (simp add: demo_typed_def return_1_def demo_runner_def Runner_def new_func_def
      check_and_store_def upd_func_def get_type_def class_name_def)

text \<open>
  \<^bold>\<open>C8\<close>, where the code departs from it. A \<^verbatim>\<open>return\<close> without a value is to produce the
  void value. As the first return of a function it fixes no return type: it raises
  \<^verbatim>\<open>NameError\<close> for the name \<^verbatim>\<open>Void\<close> and the return type stays unset. Executed after
  \<^verbatim>\<open>return 1\<close> has fixed the return type \<^verbatim>\<open>Integer\<close> on the same function object, it
  raises the same \<^verbatim>\<open>NameError\<close> and not the type mismatch. A first \<^verbatim>\<open>return\<close> of a host
  value, here the class object that the name \<^verbatim>\<open>Integer\<close> evaluates to, raises \<^verbatim>\<open>KeyError\<close>
  and fixes nothing either.
\<close>

theorem bare_return_fixes_nothing:
  "return_type (funcs demo_runner 0) = None \<and>
   exec_return (eval 1 demo_engine) return_bare 0 demo_runner =
     (demo_runner, Inl (NameError ''Void'')) \<and>
   exec_return (eval 1 demo_engine) return_1 0 demo_runner = (demo_typed, Inr ()) \<and>
   return_type (funcs demo_typed 0) = Some (TypeId ''Integer'') \<and>
   exec_return (eval 1 demo_engine) return_bare 0 demo_typed =
     (demo_typed, Inl (NameError ''Void'')) \<and>
   exec_return (eval 1 demo_engine) (Return 3 (Some (Name ''Integer''))) 0 demo_runner =
     (demo_runner, Inl (KeyError ''type''))"
proof -
  have a: "return_type (funcs demo_runner 0) = None"
    by (simp add: demo_runner_def Runner_def new_func_def)
  have b: "exec_return (eval 1 demo_engine) return_bare 0 demo_runner =
     (demo_runner, Inl (NameError ''Void''))"
    and c: "exec_return (eval 1 demo_engine) return_bare 0 demo_typed =
     (demo_typed, Inl (NameError ''Void''))"
    by (simp_all add: return_bare_def)
  have d: "exec_return (eval 1 demo_engine) (Return 3 (Some (Name ''Integer''))) 0 demo_runner =
     (demo_runner, Inl (KeyError ''type''))"
    by (simp add: demo_runner_def demo_child_def demo_global_def Runner_def new_func_def
        get_var_try_def dict_get_def STD_TYPES_def wrap_py_type_def PY_TYPES_def)
  from a b c d demo_typed_eq demo_typed_type show ?thesis by simp
qed

end
